theory Spec2Isabelle
  imports
    Complex_Main
    "HOL-Library.Char_ord"
    "HOL-Library.List_Lexorder"
    "HOL-Library.Product_Lexorder"
    "HOL-Library.Multiset"
begin

section \<open>JavaScript numbers\<close>

text \<open>
  A JavaScript \<open>number\<close> is an IEEE 754 binary64 value. A finite one is \<open>Double m e\<close>,
  the value \<open>m * 2^e\<close>, kept in the form in which \<open>m\<close> is odd (zero is \<open>Double 0 0\<close>).
  An arithmetic operation returns the exact result rounded to the nearest representable
  value, ties to the even significand: 53 significant bits, and the fixed spacing
  \<open>2^-1074\<close> below \<open>2^-1022\<close>. \<open>NaN\<close>, the infinities, the sign of zero, division by
  zero and results beyond the largest finite value are outside this model.
\<close>

datatype double = Double int int



text \<open>The number of binary digits of a natural number.\<close>

fun bit_length :: "nat \<Rightarrow> nat" where
  "bit_length n = (if n = 0 then 0 else Suc (bit_length (n div 2)))"

declare bit_length.simps [simp del]

text \<open>
  The binary exponent of the fraction \<open>a / q\<close> of two positive integers: the integer \<open>k\<close>
  with \<open>2^k \<le> a / q < 2^(k+1)\<close>. It is the difference of the bit lengths or one less.
\<close>

definition ilog2_frac :: "int \<Rightarrow> int \<Rightarrow> int" where
  "ilog2_frac a q =
     (if q * 2 ^ nat (int (bit_length (nat a)) - int (bit_length (nat q)))
           \<le> a * 2 ^ nat (int (bit_length (nat q)) - int (bit_length (nat a)))
      then int (bit_length (nat a)) - int (bit_length (nat q))
      else int (bit_length (nat a)) - int (bit_length (nat q)) - 1)"

text \<open>The integer nearest to \<open>num / den\<close> for a positive \<open>den\<close>, the even one on a tie.\<close>

definition round_half_even_div :: "int \<Rightarrow> int \<Rightarrow> int" where
  "round_half_even_div num den =
     (if 2 * (num mod den) < den then num div den
      else if den < 2 * (num mod den) then num div den + 1
      else if even (num div den) then num div den else num div den + 1)"

function canonical :: "int \<Rightarrow> int \<Rightarrow> double" where
  "canonical m e =
     (if m = 0 then Double 0 0 else if even m then canonical (m div 2) (e + 1) else Double m e)"
  by pat_completeness auto
termination
  by (relation "measure (\<lambda>(m, e). nat \<bar>m\<bar>)") auto

declare canonical.simps [simp del]

text \<open>
  \<open>round_at p q e u\<close> is the multiple of \<open>2^u\<close> nearest to \<open>(p / q) * 2^e\<close>, and
  \<open>round_frac p q e\<close> is the double nearest to \<open>(p / q) * 2^e\<close>, for a positive \<open>q\<close>: the
  spacing of the doubles around a value with binary exponent \<open>k\<close> is
  \<open>2^(max k (-1022) - 52)\<close>.
\<close>

definition round_at :: "int \<Rightarrow> int \<Rightarrow> int \<Rightarrow> int \<Rightarrow> double" where
  "round_at p q e u =
     canonical (round_half_even_div (p * 2 ^ nat (e - u)) (q * 2 ^ nat (u - e))) u"

definition round_frac :: "int \<Rightarrow> int \<Rightarrow> int \<Rightarrow> double" where
  "round_frac p q e =
     (if p = 0 then Double 0 0
      else round_at p q e (max (ilog2_frac \<bar>p\<bar> q + e) (- 1022) - 52))"

text \<open>
  An integer as a double, the double that a decimal literal \<open>p / q\<close> denotes, and the
  operations \<open>+\<close>, \<open>*\<close> and \<open>/\<close> on doubles.
\<close>

definition double_of_int :: "int \<Rightarrow> double" where
  "double_of_int n = round_frac n 1 0"

definition double_of_ratio :: "int \<Rightarrow> int \<Rightarrow> double" where
  "double_of_ratio p q = round_frac p q 0"

fun fadd :: "double \<Rightarrow> double \<Rightarrow> double" where
  "fadd (Double m1 e1) (Double m2 e2) =
     round_frac (m1 * 2 ^ nat (e1 - min e1 e2) + m2 * 2 ^ nat (e2 - min e1 e2)) 1 (min e1 e2)"

fun fmul :: "double \<Rightarrow> double \<Rightarrow> double" where
  "fmul (Double m1 e1) (Double m2 e2) = round_frac (m1 * m2) 1 (e1 + e2)"

fun fdiv :: "double \<Rightarrow> double \<Rightarrow> double" where
  "fdiv (Double m1 e1) (Double m2 e2) =
     (if m2 = 0 then Double 0 0
      else if m2 < 0 then round_frac (- m1) (- m2) (e1 - e2)
      else round_frac m1 m2 (e1 - e2))"

declare fadd.simps [simp del] fmul.simps [simp del] fdiv.simps [simp del]

section \<open>Data model (src/unnamed/part\_001: types, src/db.ts: Report, DBReport)\<close>

text \<open>
  The result types of the clustering pipeline. A number that holds a question count or a
  token count is modelled as an \<open>int\<close>: on integers below \<open>2^53\<close> in magnitude the
  operations on numbers are exact. The estimated cost, a fraction of a dollar, is a
  \<open>double\<close>.
\<close>

record QuestionFrequency =
  question :: string
  count :: int

record UsageAccount =
  prompt_tokens :: int
  completion_tokens :: int
  total_tokens :: int
  estimated_cost_usd :: double

record ClusteringResult =
  questions :: "QuestionFrequency list"
  usage :: UsageAccount

datatype status = Pending | Completed | Failed

text \<open>
  Timestamps are the strings of \<open>new Date().toISOString()\<close>: fixed-width UTC instants,
  whose order as strings is the order of the instants in milliseconds. They are modelled
  by that number of milliseconds, and the clock reading is an argument of every operation
  that reads the clock.
\<close>

type_synonym timestamp = nat

record Report =
  report_id :: string
  status :: status
  timeRange :: string
  topCount :: int
  result :: "ClusteringResult option"
  error :: "string option"
  createdAt :: timestamp
  updatedAt :: timestamp

text \<open>A row of the table \<open>reports\<close>; \<open>None\<close> in a nullable column is SQL NULL.\<close>

record DBReport =
  row_id :: string
  row_status :: status
  time_range :: string
  top_count :: int
  row_result :: "ClusteringResult option"
  row_error :: "string option"
  created_at :: timestamp
  updated_at :: timestamp

text \<open>
  The argument of \<open>updateReport\<close> has type \<open>Partial<Report>\<close>: every field of
  \<open>Report\<close> is optional.
\<close>

record ReportUpdate =
  upd_id :: "string option"
  upd_status :: "status option"
  upd_timeRange :: "string option"
  upd_topCount :: "int option"
  upd_result :: "ClusteringResult option"
  upd_error :: "string option"
  upd_createdAt :: "timestamp option"
  upd_updatedAt :: "timestamp option"

text \<open>
  Values that the code throws. Every constructor but \<open>NonError\<close> is an instance of the
  JavaScript class \<open>Error\<close> and carries its message.
\<close>

datatype thrown =
    Error string
  | SyntaxError string
  | TypeError string
  | ZodError string
  | SqliteError string
  | NonError

section \<open>The report store (src/db.ts)\<close>

text \<open>The table \<open>reports\<close>, with primary key \<open>id\<close>.\<close>

type_synonym store = "string \<rightharpoonup> DBReport"

text \<open>
  \<open>createReport\<close>: builds the pending report and inserts its row. The insert fails on
  an id that is already present (primary key). \<open>topCount\<close> is a JavaScript number:
  \<open>None\<close> stands for \<open>NaN\<close>, which SQLite binds as NULL and the column
  \<open>top_count INTEGER NOT NULL\<close> rejects. The columns \<open>result\<close> and \<open>error\<close> are
  not in the insert, so they are NULL.
\<close>

definition createReport ::
  "store \<Rightarrow> string \<Rightarrow> string \<Rightarrow> int option \<Rightarrow> timestamp \<Rightarrow> thrown + (store \<times> Report)" where
  "createReport db rid rng topN now =
     (case topN of
        None \<Rightarrow> Inl (SqliteError ''SQLITE_CONSTRAINT: NOT NULL constraint failed: reports.top_count'')
      | Some n \<Rightarrow>
          (case db rid of
             Some _ \<Rightarrow> Inl (SqliteError ''SQLITE_CONSTRAINT: UNIQUE constraint failed: reports.id'')
           | None \<Rightarrow>
               Inr (db(rid \<mapsto>
                      \<lparr>row_id = rid, row_status = Pending, time_range = rng, top_count = n,
                       row_result = None, row_error = None, created_at = now, updated_at = now\<rparr>),
                    \<lparr>report_id = rid, status = Pending, timeRange = rng, topCount = n,
                     result = None, error = None, createdAt = now, updatedAt = now\<rparr>)))"

text \<open>
  JavaScript truthiness of an optional string: absent and the empty string are falsy.
\<close>

definition truthy :: "string option \<Rightarrow> bool" where
  "truthy s = (case s of None \<Rightarrow> False | Some t \<Rightarrow> t \<noteq> [])"

text \<open>
  The SET clause that \<open>updateReport\<close> assembles, applied to a row: \<open>status\<close> when the
  update carries one (every status label is a non-empty string), \<open>result\<close> when the update
  carries one (an object is truthy), \<open>error\<close> when the update carries a non-empty
  message, and \<open>updated_at\<close> always. The other fields of the update are not read.
\<close>

definition apply_sets :: "ReportUpdate \<Rightarrow> timestamp \<Rightarrow> DBReport \<Rightarrow> DBReport" where
  "apply_sets u now row =
     (let r1 = (case upd_status u of Some s \<Rightarrow> row\<lparr>row_status := s\<rparr> | None \<Rightarrow> row);
          r2 = (case upd_result u of Some c \<Rightarrow> r1\<lparr>row_result := Some c\<rparr> | None \<Rightarrow> r1);
          r3 = (if truthy (upd_error u) then r2\<lparr>row_error := upd_error u\<rparr> else r2)
      in r3\<lparr>updated_at := now\<rparr>)"

text \<open>
  \<open>updateReport\<close>: \<open>UPDATE reports SET ... WHERE id = ?\<close>. The statement changes the
  row with that id when there is one and no row otherwise; the number of changed rows is
  not read, and nothing is thrown.
\<close>

definition updateReport :: "store \<Rightarrow> string \<Rightarrow> ReportUpdate \<Rightarrow> timestamp \<Rightarrow> thrown + store" where
  "updateReport db rid u now =
     (case db rid of
        None \<Rightarrow> Inr db
      | Some row \<Rightarrow> Inr (db(rid \<mapsto> apply_sets u now row)))"

text \<open>
  \<open>getReport\<close>: the row as a \<open>Report\<close>. A NULL \<open>result\<close> or \<open>error\<close> column is an
  absent field.
\<close>

definition getReport :: "store \<Rightarrow> string \<Rightarrow> Report option" where
  "getReport db rid =
     (case db rid of
        None \<Rightarrow> None
      | Some row \<Rightarrow>
          Some \<lparr>report_id = row_id row, status = row_status row, timeRange = time_range row,
                topCount = top_count row, result = row_result row, error = row_error row,
                createdAt = created_at row, updatedAt = updated_at row\<rparr>)"

text \<open>An update object with no field set.\<close>

definition no_update :: ReportUpdate where
  "no_update =
     \<lparr>upd_id = None, upd_status = None, upd_timeRange = None, upd_topCount = None,
      upd_result = None, upd_error = None, upd_createdAt = None, upd_updatedAt = None\<rparr>"

text \<open>
  The two update objects that the request handler of src/server.ts writes when the
  detached analysis settles: \<open>{ status: 'completed', result }\<close> and
  \<open>{ status: 'failed', error: message }\<close>.
\<close>

definition completed_update :: "ClusteringResult \<Rightarrow> ReportUpdate" where
  "completed_update r = no_update\<lparr>upd_status := Some Completed, upd_result := Some r\<rparr>"

definition failed_update :: "string \<Rightarrow> ReportUpdate" where
  "failed_update msg = no_update\<lparr>upd_status := Some Failed, upd_error := Some msg\<rparr>"

section \<open>Strings, sorting and slicing as the clustering code uses them\<close>

text \<open>
  \<open>String.prototype.toLowerCase\<close> and \<open>trim\<close> on strings of 8-bit characters: the
  ASCII letters are folded and the ASCII white space characters (tab, line feed, vertical
  tab, form feed, carriage return, space) are trimmed. Letters and spaces beyond ASCII are
  outside this model.
\<close>

definition lower_char :: "char \<Rightarrow> char" where
  "lower_char c =
     (case map_of (zip ''ABCDEFGHIJKLMNOPQRSTUVWXYZ'' ''abcdefghijklmnopqrstuvwxyz'') c of
        Some d \<Rightarrow> d
      | None \<Rightarrow> c)"

definition toLowerCase :: "string \<Rightarrow> string" where
  "toLowerCase s = map lower_char s"

definition is_space :: "char \<Rightarrow> bool" where
  "is_space c = (c \<in> set [CHR 0x09, CHR 0x0A, CHR 0x0B, CHR 0x0C, CHR 0x0D, CHR '' ''])"

definition trim :: "string \<Rightarrow> string" where
  "trim s = rev (dropWhile is_space (rev (dropWhile is_space s)))"

text \<open>
  \<open>a.localeCompare(b)\<close> is negative, zero or positive as \<open>a\<close> comes before, with or
  after \<open>b\<close> in the collation of the runtime's locale. That collation is not the order of
  the character codes (it puts \<open>apple\<close> before \<open>Zebra\<close>) and is not part of the program:
  \<open>localeCompare\<close> is a parameter of the model.
\<close>

type_synonym collation = "string \<Rightarrow> string \<Rightarrow> int"

text \<open>
  The comparator that both \<open>processDailyBatch\<close> and \<open>combineResults\<close> pass to
  \<open>sort\<close>.
\<close>

definition compareFrequency :: "collation \<Rightarrow> QuestionFrequency \<Rightarrow> QuestionFrequency \<Rightarrow> int" where
  "compareFrequency localeCompare a b =
     (if count a \<noteq> count b then count b - count a
      else localeCompare (question a) (question b))"

text \<open>
  \<open>Array.prototype.sort\<close> with a comparator. For a consistent comparator ECMAScript
  fixes the result: the stable sorted permutation. It is computed here by insertion, an
  element going before the first one that it does not follow.
\<close>

fun insert_cmp :: "('a \<Rightarrow> 'a \<Rightarrow> int) \<Rightarrow> 'a \<Rightarrow> 'a list \<Rightarrow> 'a list" where
  "insert_cmp cmp x [] = [x]"
| "insert_cmp cmp x (y # ys) = (if cmp x y \<le> 0 then x # y # ys else y # insert_cmp cmp x ys)"

fun array_sort :: "('a \<Rightarrow> 'a \<Rightarrow> int) \<Rightarrow> 'a list \<Rightarrow> 'a list" where
  "array_sort cmp [] = []"
| "array_sort cmp (x # xs) = insert_cmp cmp x (array_sort cmp xs)"

text \<open>
  \<open>xs.slice(0, end)\<close> for a number \<open>end\<close>: \<open>NaN\<close> (here \<open>None\<close>) counts as 0, a
  negative \<open>end\<close> counts from the end of the array, and the result never reaches beyond
  the array.
\<close>

definition slice0 :: "'a list \<Rightarrow> int option \<Rightarrow> 'a list" where
  "slice0 xs finish =
     (case finish of
        None \<Rightarrow> []
      | Some e \<Rightarrow> if e < 0 then take (nat (int (length xs) + e)) xs else take (nat e) xs)"

section \<open>The cluster engine and the aggregator (src/index.ts)\<close>

datatype TimeRange = today | yesterday | last7 | last30 | alltime | monthToDate

text \<open>
  The configuration \<open>env\<close> that \<open>getConfig\<close> returns. \<open>TOP_QUESTIONS\<close> is the number
  \<open>parseInt(val, 10)\<close>, with \<open>None\<close> for \<open>NaN\<close>. Where the code takes
  \<open>parseInt(env.TOP_QUESTIONS.toString())\<close> the model takes \<open>TOP_QUESTIONS\<close> itself:
  the decimal string of an integer is read back as that integer (for integers that
  \<open>toString\<close> prints without an exponent, below \<open>10^21\<close> in magnitude), and \<open>NaN\<close>
  as \<open>NaN\<close>.

  \<open>env\<close> is a variable of the module: every call of \<open>setEnvironmentVariables\<close>, one
  per request, overwrites it, and a job reads it anew each time it uses it. The functions
  below therefore take the value that \<open>env\<close> holds at each point where they read it; two
  reads with no \<open>await\<close> between them see the same value.
\<close>

record Env =
  PROJECT_ID :: string
  VF_API_KEY :: string
  OPENAI_API_KEY :: string
  TOP_QUESTIONS :: "int option"
  TIME_RANGE :: TimeRange
  IS_SERVER :: bool
  VF_CLOUD :: "string option"

text \<open>
  What \<open>processDailyBatch\<close> reads of the response of the completion service: the
  \<open>message.content\<close> of each choice, which may be null, and the reported token usage,
  which may be absent.
\<close>

record TokenUsage =
  reported_prompt_tokens :: int
  reported_completion_tokens :: int
  reported_total_tokens :: int

record ChatCompletion =
  choices :: "string option list"
  reported_usage :: "TokenUsage option"

text \<open>
  What \<open>processDailyBatch\<close> reads of the value of \<open>JSON.parse(content)\<close>: whether it is
  null, and what its property \<open>questions\<close> is: undefined, a value that is not an array,
  or an array. The elements of the array are taken to have the shape
  \<open>{question: string, count: number}\<close> that the comparator's parameter types declare.
  \<open>JSON.parse\<close> itself is a parameter of the model; \<open>Inl\<close> is the message of its
  \<open>SyntaxError\<close>.
\<close>

datatype questions_field = Undefined | NotAnArray | Clusters "QuestionFrequency list"

datatype parsed_json = JsonNull | JsonValue questions_field

type_synonym json_parse = "string \<Rightarrow> string + parsed_json"

text \<open>
  One call of \<open>openai.chat.completions.create\<close>, given the requested number of questions
  and the questions that the prompt lists. It answers or throws.
\<close>

type_synonym completion_call = "int option \<Rightarrow> string list \<Rightarrow> thrown + ChatCompletion"

definition zero_usage :: UsageAccount where
  "zero_usage =
     \<lparr>prompt_tokens = 0, completion_tokens = 0, total_tokens = 0,
      estimated_cost_usd = Double 0 0\<rparr>"

definition empty_result :: ClusteringResult where
  "empty_result = \<lparr>questions = [], usage = zero_usage\<rparr>"

text \<open>
  The usage account of a batch: the reported token counts, zero when the response reports
  none, and the cost at \<open>GPT_PRICING\<close>: 0.03 and 0.06 dollars per 1000 tokens, computed
  in doubles as the source writes it: \<open>(prompt_tokens / 1000) * 0.03 +
  (completion_tokens / 1000) * 0.06\<close>.
\<close>

definition batch_usage :: "TokenUsage option \<Rightarrow> UsageAccount" where
  "batch_usage reported =
     (let u = (case reported of
                 Some t \<Rightarrow> t
               | None \<Rightarrow> \<lparr>reported_prompt_tokens = 0, reported_completion_tokens = 0,
                          reported_total_tokens = 0\<rparr>)
      in \<lparr>prompt_tokens = reported_prompt_tokens u,
          completion_tokens = reported_completion_tokens u,
          total_tokens = reported_total_tokens u,
          estimated_cost_usd =
            fadd (fmul (fdiv (double_of_int (reported_prompt_tokens u)) (double_of_int 1000))
                       (double_of_ratio 3 100))
                 (fmul (fdiv (double_of_int (reported_completion_tokens u)) (double_of_int 1000))
                       (double_of_ratio 6 100))\<rparr>)"

text \<open>
  \<open>processDailyBatch\<close>. An empty batch returns the empty result without a call. Otherwise
  the completion service is called; a content that is null or empty returns the empty
  result with zero usage; a content that \<open>JSON.parse\<close> rejects, a parsed value that is
  null, and a \<open>questions\<close> property that is not an array (it has no method \<open>sort\<close>)
  throw; an array is sorted and cut to \<open>TOP_QUESTIONS\<close>. The messages of the type
  errors are those of V8. \<open>env_call\<close> is the value of \<open>env\<close> when the prompt is built
  and the call is made, \<open>env_cut\<close> its value after the \<open>await\<close> of the call, when the
  sorted list is cut.
\<close>

definition processDailyBatch ::
  "Env \<Rightarrow> Env \<Rightarrow> collation \<Rightarrow> completion_call \<Rightarrow> json_parse \<Rightarrow> string list \<Rightarrow>
   thrown + ClusteringResult" where
  "processDailyBatch env_call env_cut localeCompare create parse qs =
     (if qs = [] then Inr empty_result
      else
        (case create (TOP_QUESTIONS env_call) qs of
           Inl e \<Rightarrow> Inl e
         | Inr response \<Rightarrow>
             (case choices response of
                [] \<Rightarrow> Inl (TypeError ''Cannot read properties of undefined (reading 'message')'')
              | content # _ \<Rightarrow>
                  (if \<not> truthy content then Inr empty_result
                   else
                     (case parse (case content of Some s \<Rightarrow> s | None \<Rightarrow> []) of
                        Inl msg \<Rightarrow> Inl (SyntaxError msg)
                      | Inr JsonNull \<Rightarrow>
                          Inl (TypeError ''Cannot read properties of null (reading 'questions')'')
                      | Inr (JsonValue Undefined) \<Rightarrow>
                          Inl (TypeError ''Cannot read properties of undefined (reading 'sort')'')
                      | Inr (JsonValue NotAnArray) \<Rightarrow>
                          Inl (TypeError ''clusters.sort is not a function'')
                      | Inr (JsonValue (Clusters clusters)) \<Rightarrow>
                          Inr \<lparr>questions =
                                 slice0 (array_sort (compareFrequency localeCompare) clusters)
                                   (TOP_QUESTIONS env_cut),
                               usage = batch_usage (reported_usage response)\<rparr>)))))"

text \<open>
  \<open>combineResults\<close>. The frequency map is a JavaScript \<open>Map\<close>: it keeps its keys in the
  order of their first insertion, so it is an association list; \<open>set\<close> on a key that is
  present replaces the value in place.
\<close>

fun map_set :: "(string \<times> int) list \<Rightarrow> string \<Rightarrow> int \<Rightarrow> (string \<times> int) list" where
  "map_set [] k v = [(k, v)]"
| "map_set ((k', v') # m) k v = (if k' = k then (k, v) # m else (k', v') # map_set m k v)"

definition map_get_or_0 :: "(string \<times> int) list \<Rightarrow> string \<Rightarrow> int" where
  "map_get_or_0 m k = (case map_of m k of Some v \<Rightarrow> v | None \<Rightarrow> 0)"

definition normalized :: "string \<Rightarrow> string" where
  "normalized q = trim (toLowerCase q)"

definition add_question :: "(string \<times> int) list \<Rightarrow> QuestionFrequency \<Rightarrow> (string \<times> int) list" where
  "add_question m q =
     map_set m (normalized (question q)) (map_get_or_0 m (normalized (question q)) + count q)"

definition frequencyMap :: "ClusteringResult list \<Rightarrow> (string \<times> int) list" where
  "frequencyMap dailyResults = foldl (\<lambda>m r. foldl add_question m (questions r)) [] dailyResults"

definition add_usage :: "UsageAccount \<Rightarrow> UsageAccount \<Rightarrow> UsageAccount" where
  "add_usage acc u =
     \<lparr>prompt_tokens = prompt_tokens acc + prompt_tokens u,
      completion_tokens = completion_tokens acc + completion_tokens u,
      total_tokens = total_tokens acc + total_tokens u,
      estimated_cost_usd = fadd (estimated_cost_usd acc) (estimated_cost_usd u)\<rparr>"

text \<open>An entry \<open>[question, count]\<close> of the frequency map as the object \<open>{ question, count }\<close>.\<close>

definition entry :: "string \<times> int \<Rightarrow> QuestionFrequency" where
  "entry = (\<lambda>(q, c). \<lparr>question = q, count = c\<rparr>)"

definition combineResults ::
  "Env \<Rightarrow> collation \<Rightarrow> ClusteringResult list \<Rightarrow> ClusteringResult" where
  "combineResults env localeCompare dailyResults =
     \<lparr>questions =
        slice0
          (array_sort (compareFrequency localeCompare) (map entry (frequencyMap dailyResults)))
          (TOP_QUESTIONS env),
      usage = foldl (\<lambda>acc curr. add_usage acc (usage curr)) zero_usage dailyResults\<rparr>"

text \<open>
  The clustering stage of \<open>analyzeQuestions\<close> (from the comment "For 'today', process all
  dialogs at once" to the end). Its inputs are what ingestion has computed: \<open>allQuestions\<close>
  for the range \<open>today\<close>, the daily batches for every other range. \<open>create i\<close> is the
  \<open>i\<close>-th call of the completion service within the job. The loop over the daily batches
  stops at the first batch that throws and keeps a result only when its question list is
  not empty; it is the same in server mode and in CLI mode, which only adds progress
  output.

  \<open>env_at k\<close> is the value of the module variable \<open>env\<close> at the \<open>k\<close>-th point at which
  the stage may find it changed. The stage reads the range at point 0. Batch \<open>i\<close> builds
  its prompt at point \<open>2 * i\<close> and cuts its list, after the \<open>await\<close> of the completion
  call, at point \<open>2 * i + 1\<close>; the pacing delay that follows is awaited before the next
  batch. The aggregator runs after the loop, at point \<open>2 * n\<close> for \<open>n\<close> batches.
\<close>

record DailyQuestions =
  date :: string
  day_questions :: "string list"

fun processBatches ::
  "(nat \<Rightarrow> Env) \<Rightarrow> collation \<Rightarrow> (nat \<Rightarrow> completion_call) \<Rightarrow> json_parse \<Rightarrow>
   DailyQuestions list \<Rightarrow> nat \<Rightarrow> ClusteringResult list \<Rightarrow> thrown + ClusteringResult list" where
  "processBatches env_at localeCompare create parse [] i dailyResults = Inr dailyResults"
| "processBatches env_at localeCompare create parse (d # ds) i dailyResults =
     (case processDailyBatch (env_at (2 * i)) (env_at (2 * i + 1)) localeCompare (create i) parse
             (day_questions d) of
        Inl e \<Rightarrow> Inl e
      | Inr r \<Rightarrow>
          processBatches env_at localeCompare create parse ds (Suc i)
            (if length (questions r) > 0 then dailyResults @ [r] else dailyResults))"

definition analyzeQuestions ::
  "(nat \<Rightarrow> Env) \<Rightarrow> collation \<Rightarrow> (nat \<Rightarrow> completion_call) \<Rightarrow> json_parse \<Rightarrow> string list \<Rightarrow>
   DailyQuestions list \<Rightarrow> thrown + ClusteringResult" where
  "analyzeQuestions env_at localeCompare create parse allQuestions dailyQuestions =
     (if TIME_RANGE (env_at 0) = today then
        processDailyBatch (env_at 0) (env_at 1) localeCompare (create 0) parse allQuestions
      else
        (case processBatches env_at localeCompare create parse dailyQuestions 0 [] of
           Inl e \<Rightarrow> Inl e
         | Inr dailyResults \<Rightarrow>
             Inr (combineResults (env_at (2 * length dailyQuestions)) localeCompare
                    dailyResults)))"

section \<open>The question extractor (src/index.ts)\<close>

text \<open>
  A dialog turn. Optional chaining reads the query as \<open>turn.payload?.payload?.query\<close>,
  so each level may be absent.
\<close>

record InnerPayload =
  message :: "string option"
  slate_content :: "string list list option"
  query :: "string option"
  intent_name :: "string option"

record TurnPayload =
  payload_type :: "string option"
  inner_payload :: "InnerPayload option"

record TranscriptDialog =
  turnID :: string
  turn_type :: string
  startTime :: "string option"
  payload :: "TurnPayload option"

definition turn_query :: "TranscriptDialog \<Rightarrow> string option" where
  "turn_query turn =
     (case payload turn of
        None \<Rightarrow> None
      | Some p \<Rightarrow> (case inner_payload p of None \<Rightarrow> None | Some ip \<Rightarrow> query ip))"

text \<open>\<open>Array.prototype.join\<close> on strings.\<close>

fun join :: "string \<Rightarrow> string list \<Rightarrow> string" where
  "join sep [] = []"
| "join sep [x] = x"
| "join sep (x # y # ys) = x @ sep @ join sep (y # ys)"

definition extractTextFromDialog :: "TranscriptDialog list \<Rightarrow> string" where
  "extractTextFromDialog dialog =
     join '' ''
       (map (\<lambda>turn. case turn_query turn of Some q \<Rightarrow> q | None \<Rightarrow> [])
          (filter (\<lambda>turn. turn_type turn = ''request'' \<and> truthy (turn_query turn)) dialog))"

text \<open>
  Modelled from the spec: the filter that \<open>extractQuestions\<close> applies to the sentences.
  The text of the function in src/index.ts breaks off after \<open>return sentences\<close>; the spec
  says that empty or whitespace-only segments are dropped. The sentence tokenizer of the
  library \<open>natural\<close> is a parameter; \<open>None\<close> is a falsy result, which \<open>|| []\<close> replaces
  by the empty array.
\<close>

definition extractQuestions :: "(string \<Rightarrow> string list option) \<Rightarrow> string \<Rightarrow> string list" where
  "extractQuestions tokenize transcript =
     (let sentences = (case tokenize transcript of Some ss \<Rightarrow> ss | None \<Rightarrow> [])
      in filter (\<lambda>sentence. trim sentence \<noteq> []) sentences)"

section \<open>The request handler (src/server.ts)\<close>

text \<open>
  The query and body of a request to \<open>/api/analyze\<close>, the environment of the process,
  and what the handler reads of the response of the credential probe. \<open>ok\<close> is true of
  the status codes 200 to 299.
\<close>

record AnalyzeRequest =
  query_range :: "string option"
  query_top :: "string option"
  body_VF_API_KEY :: "string option"
  body_PROJECT_ID :: "string option"

record ProcessEnv =
  env_PROJECT_ID :: "string option"
  env_VF_API_KEY :: "string option"
  env_OPENAI_API_KEY :: "string option"
  env_VF_CLOUD :: "string option"

record FetchResponse =
  http_status :: nat
  statusText :: string

definition ok :: "FetchResponse \<Rightarrow> bool" where
  "ok response = (200 \<le> http_status response \<and> http_status response \<le> 299)"

definition range_of_label :: "string \<Rightarrow> TimeRange option" where
  "range_of_label s =
     map_of [(''today'', today), (''yesterday'', yesterday), (''last7'', last7),
             (''last30'', last30), (''alltime'', alltime), (''monthToDate'', monthToDate)] s"

fun label_of_range :: "TimeRange \<Rightarrow> string" where
  "label_of_range today = ''today''"
| "label_of_range yesterday = ''yesterday''"
| "label_of_range last7 = ''last7''"
| "label_of_range last30 = ''last30''"
| "label_of_range alltime = ''alltime''"
| "label_of_range monthToDate = ''monthToDate''"

text \<open>
  \<open>querySchema.parse(req.query)\<close>: the range must be one of the six labels and defaults
  to \<open>last7\<close>; \<open>top\<close> is any string and defaults to \<open>10\<close>.
\<close>

definition querySchema_parse :: "AnalyzeRequest \<Rightarrow> thrown + (TimeRange \<times> string)" where
  "querySchema_parse req =
     (case (case query_range req of None \<Rightarrow> Some last7 | Some s \<Rightarrow> range_of_label s) of
        None \<Rightarrow> Inl (ZodError ''Invalid enum value'')
      | Some r \<Rightarrow> Inr (r, (case query_top req of None \<Rightarrow> ''10'' | Some t \<Rightarrow> t)))"

text \<open>
  \<open>getConfig\<close> as \<open>setEnvironmentVariables\<close> calls it from the handler, which overrides
  \<open>TIME_RANGE\<close>, \<open>TOP_QUESTIONS\<close> and \<open>IS_SERVER\<close>. The schema reads the project id and
  the keys from the environment of the process and rejects a missing one. The built-in
  \<open>parseInt\<close> with radix 10 is a parameter, with \<open>None\<close> for \<open>NaN\<close>.
\<close>

definition getConfig ::
  "(string \<Rightarrow> int option) \<Rightarrow> ProcessEnv \<Rightarrow> TimeRange \<Rightarrow> string \<Rightarrow> bool \<Rightarrow> thrown + Env" where
  "getConfig parseInt10 penv rng top_str server =
     (case (env_PROJECT_ID penv, env_VF_API_KEY penv, env_OPENAI_API_KEY penv) of
        (Some project, Some vf_key, Some openai_key) \<Rightarrow>
          Inr \<lparr>PROJECT_ID = project, VF_API_KEY = vf_key, OPENAI_API_KEY = openai_key,
               TOP_QUESTIONS = parseInt10 top_str, TIME_RANGE = rng, IS_SERVER = server,
               VF_CLOUD = env_VF_CLOUD penv\<rparr>
      | _ \<Rightarrow> Inl (ZodError ''Required''))"

text \<open>
  What the handler has done when it returns: it has passed an error to \<open>next\<close>, or it has
  started the analysis with a configuration and answered with the report id and status.
\<close>

datatype handler_result = NextError thrown | Started Env string status

text \<open>
  \<open>analyzeHandler\<close>, up to its response. \<open>reportId\<close> is the value of
  \<open>crypto.randomUUID()\<close>, \<open>now\<close> the clock reading of \<open>createReport\<close>, and
  \<open>testRequest\<close> the outcome of the probe \<open>fetch\<close>. \<open>parseInt\<close> is the built-in called
  without a radix. The steps are in the order of the source: the pending report is
  created first, the probe is awaited after it.
\<close>

definition analyzeHandler ::
  "(string \<Rightarrow> int option) \<Rightarrow> (string \<Rightarrow> int option) \<Rightarrow> ProcessEnv \<Rightarrow> store \<Rightarrow>
   AnalyzeRequest \<Rightarrow> string \<Rightarrow> timestamp \<Rightarrow> thrown + FetchResponse \<Rightarrow> store \<times> handler_result" where
  "analyzeHandler parseInt10 parseInt penv db req reportId now testRequest =
     (case querySchema_parse req of
        Inl e \<Rightarrow> (db, NextError e)
      | Inr (rng, top_str) \<Rightarrow>
          (case getConfig parseInt10 penv rng top_str True of
             Inl e \<Rightarrow> (db, NextError e)
           | Inr env \<Rightarrow>
               (case createReport db reportId (label_of_range rng) (parseInt top_str) now of
                  Inl e \<Rightarrow> (db, NextError e)
                | Inr (db1, report) \<Rightarrow>
                    (case testRequest of
                       Inl e \<Rightarrow> (db1, NextError e)
                     | Inr response \<Rightarrow>
                         if \<not> ok response then
                           (db1, NextError (Error
                              (if http_status response = 401 then ''Invalid Voiceflow API key''
                               else if http_status response = 404 then ''Invalid project ID''
                               else ''Failed to validate credentials: '' @ statusText response)))
                         else (db1, Started env reportId (status report))))))"

text \<open>
  The two callbacks on the detached analysis: the result is written as completed, an
  error as failed with its message.
\<close>

definition error_message :: "thrown \<Rightarrow> string" where
  "error_message e =
     (case e of
        Error m \<Rightarrow> m | SyntaxError m \<Rightarrow> m | TypeError m \<Rightarrow> m | ZodError m \<Rightarrow> m
      | SqliteError m \<Rightarrow> m | NonError \<Rightarrow> ''Unknown error occurred'')"

definition settleReport ::
  "store \<Rightarrow> string \<Rightarrow> thrown + ClusteringResult \<Rightarrow> timestamp \<Rightarrow> thrown + store" where
  "settleReport db reportId outcome now =
     (case outcome of
        Inr r \<Rightarrow> updateReport db reportId (completed_update r) now
      | Inl e \<Rightarrow> updateReport db reportId (failed_update (error_message e)) now)"

section \<open>Notions of the specification\<close>




text \<open>
  The component-wise sum of usage accounts, in the order of the list. The token counts are
  integers; the costs are doubles, added from zero one after the other, each addition
  rounded.
\<close>

definition sum_usage :: "UsageAccount list \<Rightarrow> UsageAccount" where
  "sum_usage us =
     \<lparr>prompt_tokens = sum_list (map prompt_tokens us),
      completion_tokens = sum_list (map completion_tokens us),
      total_tokens = sum_list (map total_tokens us),
      estimated_cost_usd = foldl fadd (Double 0 0) (map estimated_cost_usd us)\<rparr>"

text \<open>
  The text that the specification asks of the extractor, turn by turn: a turn is kept
  when its type is \<open>request\<close> and it carries a non-empty query; the kept queries follow
  each other in turn order with one space between them.
\<close>

fun spec_text :: "TranscriptDialog list \<Rightarrow> string" where
  "spec_text [] = []"
| "spec_text (turn # turns) =
     (case (if turn_type turn = ''request'' then turn_query turn else None) of
        None \<Rightarrow> spec_text turns
      | Some q \<Rightarrow>
          if q = [] then spec_text turns
          else if spec_text turns = [] then q
          else q @ '' '' @ spec_text turns)"

definition whitespace_only :: "string \<Rightarrow> bool" where
  "whitespace_only s = (\<forall>c \<in> set s. is_space c)"

section \<open>Example inputs\<close>

text \<open>
  Concrete inputs at which the theorems below are evaluated. \<open>example_env_at\<close> is a
  module variable \<open>env\<close> that no other request changes; \<open>example_env_overwritten\<close> is
  one that holds the configuration of a request for one question when the job starts and
  that of a later request for ten questions from then on. \<open>example_create content\<close> is
  a completion service that answers every call with the given message content and a usage
  of 10 prompt and 5 completion tokens; \<open>example_parse\<close> is \<open>JSON.parse\<close> on the
  contents used here; \<open>example_parseInt\<close> is \<open>parseInt\<close> on the strings used here.
\<close>

text \<open>
  A collation for the examples: letters compare without regard to case first, the
  character codes decide between texts that differ in case only.
\<close>

definition example_collation :: collation where
  "example_collation a b =
     (if (toLowerCase a, a) < (toLowerCase b, b) then - 1
      else if (toLowerCase a, a) = (toLowerCase b, b) then 0 else 1)"

definition example_env :: "TimeRange \<Rightarrow> int option \<Rightarrow> Env" where
  "example_env rng n =
     \<lparr>PROJECT_ID = ''project'', VF_API_KEY = ''vf-key'', OPENAI_API_KEY = ''openai-key'',
      TOP_QUESTIONS = n, TIME_RANGE = rng, IS_SERVER = True, VF_CLOUD = None\<rparr>"

definition example_env_at :: "TimeRange \<Rightarrow> int option \<Rightarrow> nat \<Rightarrow> Env" where
  "example_env_at rng n k = example_env rng n"


definition example_create :: "string option \<Rightarrow> nat \<Rightarrow> completion_call" where
  "example_create content i n qs =
     Inr \<lparr>choices = [content],
          reported_usage = Some \<lparr>reported_prompt_tokens = 10, reported_completion_tokens = 5,
                                 reported_total_tokens = 15\<rparr>\<rparr>"

definition no_clusters_content :: string where
  \<open>no_clusters_content = ''{"questions": []}''\<close>

definition two_clusters_content :: string where
  \<open>two_clusters_content =
     ''{"questions": [{"question": "reset password", "count": 2}, {"question": "cancel order", "count": 3}]}''\<close>

definition tied_clusters_content :: string where
  \<open>tied_clusters_content =
     ''{"questions": [{"question": "Zebra print", "count": 2}, {"question": "apple pay", "count": 2}]}''\<close>

definition html_content :: string where
  "html_content = ''<html>502 Bad Gateway</html>''"

definition example_parse :: json_parse where
  "example_parse s =
     (if s = no_clusters_content then Inr (JsonValue (Clusters []))
      else if s = two_clusters_content then
        Inr (JsonValue (Clusters [\<lparr>question = ''reset password'', count = 2\<rparr>,
                                  \<lparr>question = ''cancel order'', count = 3\<rparr>]))
      else if s = tied_clusters_content then
        Inr (JsonValue (Clusters [\<lparr>question = ''Zebra print'', count = 2\<rparr>,
                                  \<lparr>question = ''apple pay'', count = 2\<rparr>]))
      else Inl ''Unexpected token < in JSON at position 0'')"

definition example_day :: DailyQuestions where
  "example_day = \<lparr>date = ''2024-05-01'', day_questions = [''How do I reset my password?'']\<rparr>"



definition example_parseInt :: "string \<Rightarrow> int option" where
  "example_parseInt s =
     (if s = ''5'' then Some 5 else if s = ''10'' then Some 10 else if s = ''-1'' then Some (- 1)
      else None)"

definition example_process_env :: ProcessEnv where
  "example_process_env =
     \<lparr>env_PROJECT_ID = Some ''project'', env_VF_API_KEY = Some ''vf-key'',
      env_OPENAI_API_KEY = Some ''openai-key'', env_VF_CLOUD = None\<rparr>"

definition example_request :: AnalyzeRequest where
  "example_request =
     \<lparr>query_range = Some ''last7'', query_top = Some ''5'', body_VF_API_KEY = Some ''wrong-key'',
      body_PROJECT_ID = None\<rparr>"

definition example_dialog :: "TranscriptDialog list" where
  "example_dialog =
     [\<lparr>turnID = ''t1'', turn_type = ''request'', startTime = Some ''2024-05-01T10:00:00.000Z'',
       payload = Some \<lparr>payload_type = Some ''intent'',
                       inner_payload = Some \<lparr>message = None, slate_content = None,
                                             query = Some ''How do I reset?'',
                                             intent_name = None\<rparr>\<rparr>\<rparr>,
      \<lparr>turnID = ''t2'', turn_type = ''text'', startTime = Some ''2024-05-01T10:00:01.000Z'',
       payload = Some \<lparr>payload_type = None,
                       inner_payload = Some \<lparr>message = Some ''Here is how.'', slate_content = None,
                                             query = Some ''ignored'', intent_name = None\<rparr>\<rparr>\<rparr>,
      \<lparr>turnID = ''t3'', turn_type = ''request'', startTime = None,
       payload = Some \<lparr>payload_type = Some ''launch'', inner_payload = None\<rparr>\<rparr>,
      \<lparr>turnID = ''t4'', turn_type = ''request'', startTime = None,
       payload = Some \<lparr>payload_type = Some ''intent'',
                       inner_payload = Some \<lparr>message = None, slate_content = None,
                                             query = Some ''Where is my order?'',
                                             intent_name = None\<rparr>\<rparr>\<rparr>]"

definition example_tokenize :: "string \<Rightarrow> string list option" where
  "example_tokenize s =
     (if s = ''How do I reset? Where is my order?''
      then Some [''How do I reset?'', '' '', ''Where is my order?''] else None)"

section \<open>Properties of the report store\<close>

text \<open>
  C9, as amended. The claim says that \<open>updateReport\<close> on an absent id fails with NotFound.
  The code does not look at the number of rows the UPDATE changed: on an absent id it
  returns normally and the store is unchanged.
\<close>

theorem updateReport_absent_id_succeeds:
  "db rid = None \<Longrightarrow> updateReport db rid u now = Inr db"
  by (simp add: updateReport_def)

theorem updateReport_absent_id_succeeds_witness:
  "(Map.empty :: store) ''r1'' = None \<and>
   updateReport Map.empty ''r1'' (failed_update ''boom'') 7 = Inr Map.empty"
  using updateReport_absent_id_succeeds [of Map.empty "''r1''" "failed_update ''boom''" 7]
  by simp

text \<open>
  C9, counterexample: on the empty store, updating the id \<open>r1\<close> is not an error.
\<close>

theorem updateReport_absent_id_counterexample:
  "\<not> isl (updateReport Map.empty ''r1'' (failed_update ''boom'') 7)"
  by (simp add: updateReport_def)

text \<open>
  C10, as amended. \<open>updateReport\<close> writes only the truthy fields of the update. On an
  existing row, any update sets \<open>status\<close> exactly when it carries one, \<open>result\<close> exactly
  when it carries one, \<open>error\<close> exactly when it carries a non-empty message, refreshes
  \<open>updated_at\<close> and changes no other column and no other row. In particular the update
  \<open>{ status: 'failed', error: '' }\<close> sets the status and refreshes \<open>updated_at\<close> but
  does not write the error column, which keeps the value it had: a report that had no
  error message (as every report has when created) becomes a failed report with no error
  message, and a report that already had one keeps it.
\<close>

theorem updateReport_writes_truthy_fields_only:
  assumes "db rid = Some row"
  shows "(\<exists>db' row'.
            updateReport db rid u now = Inr db' \<and> db' rid = Some row' \<and>
            (\<forall>k. k \<noteq> rid \<longrightarrow> db' k = db k) \<and>
            row_status row' = (case upd_status u of Some s \<Rightarrow> s | None \<Rightarrow> row_status row) \<and>
            row_result row' = (case upd_result u of Some c \<Rightarrow> Some c | None \<Rightarrow> row_result row) \<and>
            row_error row' = (if truthy (upd_error u) then upd_error u else row_error row) \<and>
            updated_at row' = now \<and>
            row_id row' = row_id row \<and> time_range row' = time_range row \<and>
            top_count row' = top_count row \<and> created_at row' = created_at row) \<and>
         (\<exists>db'.
            updateReport db rid (failed_update []) now = Inr db' \<and>
            db' rid = Some (row\<lparr>row_status := Failed, updated_at := now\<rparr>) \<and>
            (row_error row = None \<longrightarrow>
               (\<exists>r. getReport db' rid = Some r \<and> status r = Failed \<and> error r = None \<and>
                    updatedAt r = now)))"
  using assms
  by (simp add: updateReport_def apply_sets_def Let_def truthy_def failed_update_def
      no_update_def getReport_def split: option.splits)

theorem updateReport_writes_truthy_fields_only_witness:
  "\<exists>db'. updateReport
            [''r1'' \<mapsto> \<lparr>row_id = ''r1'', row_status = Pending, time_range = ''last7'',
                         top_count = 5, row_result = None, row_error = None,
                         created_at = 10, updated_at = 10\<rparr>]
            ''r1'' (failed_update []) 20 = Inr db' \<and>
         db' ''r1'' = Some \<lparr>row_id = ''r1'', row_status = Failed, time_range = ''last7'',
                         top_count = 5, row_result = None, row_error = None,
                         created_at = 10, updated_at = 20\<rparr> \<and>
         (\<exists>r. getReport db' ''r1'' = Some r \<and> status r = Failed \<and> error r = None \<and>
              updatedAt r = 20)"
  using updateReport_writes_truthy_fields_only
    [of "[''r1'' \<mapsto> \<lparr>row_id = ''r1'', row_status = Pending, time_range = ''last7'',
                         top_count = 5, row_result = None, row_error = None,
                         created_at = 10, updated_at = 10\<rparr>]"
        "''r1''"
        "\<lparr>row_id = ''r1'', row_status = Pending, time_range = ''last7'',
          top_count = 5, row_result = None, row_error = None,
          created_at = 10, updated_at = 10\<rparr>"
        "failed_update []" 20]
  by simp

text \<open>
  C10, counterexample: a report is created at time 10, updated at time 20 with
  \<open>{ status: 'failed', error: 'boom' }\<close> and updated again at time 30 with
  \<open>{ status: 'failed', error: '' }\<close>. The last update leaves the error column as it
  was: the report is failed and still carries the message \<open>boom\<close>, not "no error
  message".
\<close>

theorem updateReport_keeps_error_counterexample:
  "createReport Map.empty ''r1'' ''last7'' (Some 5) 10 =
     Inr ([''r1'' \<mapsto> \<lparr>row_id = ''r1'', row_status = Pending, time_range = ''last7'',
                        top_count = 5, row_result = None, row_error = None,
                        created_at = 10, updated_at = 10\<rparr>],
          \<lparr>report_id = ''r1'', status = Pending, timeRange = ''last7'', topCount = 5,
           result = None, error = None, createdAt = 10, updatedAt = 10\<rparr>) \<and>
   updateReport
     [''r1'' \<mapsto> \<lparr>row_id = ''r1'', row_status = Pending, time_range = ''last7'',
                  top_count = 5, row_result = None, row_error = None,
                  created_at = 10, updated_at = 10\<rparr>]
     ''r1'' (failed_update ''boom'') 20 =
     Inr [''r1'' \<mapsto> \<lparr>row_id = ''r1'', row_status = Failed, time_range = ''last7'',
                       top_count = 5, row_result = None, row_error = Some ''boom'',
                       created_at = 10, updated_at = 20\<rparr>] \<and>
   updateReport
     [''r1'' \<mapsto> \<lparr>row_id = ''r1'', row_status = Failed, time_range = ''last7'',
                  top_count = 5, row_result = None, row_error = Some ''boom'',
                  created_at = 10, updated_at = 20\<rparr>]
     ''r1'' (failed_update []) 30 =
     Inr [''r1'' \<mapsto> \<lparr>row_id = ''r1'', row_status = Failed, time_range = ''last7'',
                       top_count = 5, row_result = None, row_error = Some ''boom'',
                       created_at = 10, updated_at = 30\<rparr>] \<and>
   getReport
     [''r1'' \<mapsto> \<lparr>row_id = ''r1'', row_status = Failed, time_range = ''last7'',
                  top_count = 5, row_result = None, row_error = Some ''boom'',
                  created_at = 10, updated_at = 30\<rparr>] ''r1'' =
     Some \<lparr>report_id = ''r1'', status = Failed, timeRange = ''last7'', topCount = 5,
           result = None, error = Some ''boom'', createdAt = 10, updatedAt = 30\<rparr>"
  by (simp add: createReport_def updateReport_def getReport_def apply_sets_def Let_def
      failed_update_def no_update_def truthy_def)

text \<open>
  C7, as amended. A report that \<open>createReport\<close> has just inserted is pending, carries
  neither a result nor an error, and has \<open>updatedAt = createdAt\<close>. After one update
  whose clock reading is not earlier than the one of the creation, \<open>updatedAt\<close> is at
  least \<open>createdAt\<close>; and when that update is one of the two the request handler
  writes, \<open>{ status: 'completed', result }\<close> or \<open>{ status: 'failed', error }\<close> with a
  non-empty message, the report is terminal and carries exactly one of result and error.
  The store itself checks neither the clock nor the shape of the update.
\<close>

theorem create_then_update_invariant:
  assumes created: "createReport db rid rng topN t0 = Inr (db1, rep)"
    and clock: "t0 \<le> t1"
    and updated: "updateReport db1 rid u t1 = Inr db2"
  shows "getReport db1 rid = Some rep \<and> status rep = Pending \<and> result rep = None \<and>
         error rep = None \<and> createdAt rep \<le> updatedAt rep \<and> updatedAt rep = createdAt rep \<and>
         (\<exists>r. getReport db2 rid = Some r \<and> createdAt r = t0 \<and> updatedAt r = t1 \<and>
              createdAt r \<le> updatedAt r \<and>
              ((\<exists>c. u = completed_update c) \<longrightarrow>
                 status r = Completed \<and> result r \<noteq> None \<and> error r = None) \<and>
              ((\<exists>msg. msg \<noteq> [] \<and> u = failed_update msg) \<longrightarrow>
                 status r = Failed \<and> result r = None \<and> error r \<noteq> None))"
proof -
  from created obtain n where n: "topN = Some n" and fresh: "db rid = None"
    by (auto simp: createReport_def split: option.splits)
  let ?row = "\<lparr>row_id = rid, row_status = Pending, time_range = rng, top_count = n,
               row_result = None, row_error = None, created_at = t0, updated_at = t0\<rparr>"
  from created n fresh have db1: "db1 = db(rid \<mapsto> ?row)"
    and rep: "rep = \<lparr>report_id = rid, status = Pending, timeRange = rng, topCount = n,
                     result = None, error = None, createdAt = t0, updatedAt = t0\<rparr>"
    by (simp_all add: createReport_def)
  have first: "getReport db1 rid = Some rep"
    by (simp add: db1 rep getReport_def)
  from updated have db2: "db2 = db1(rid \<mapsto> apply_sets u t1 ?row)"
    by (simp add: updateReport_def db1)
  let ?r = "the (getReport db2 rid)"
  have got: "getReport db2 rid = Some ?r"
    by (simp add: db2 getReport_def)
  have times: "createdAt ?r = t0 \<and> updatedAt ?r = t1"
    by (simp add: db2 getReport_def apply_sets_def Let_def split: option.splits)
  have compl: "(\<exists>c. u = completed_update c) \<longrightarrow>
      status ?r = Completed \<and> result ?r \<noteq> None \<and> error ?r = None"
    by (auto simp: db2 getReport_def apply_sets_def Let_def completed_update_def
        no_update_def truthy_def)
  have failed: "(\<exists>msg. msg \<noteq> [] \<and> u = failed_update msg) \<longrightarrow>
      status ?r = Failed \<and> result ?r = None \<and> error ?r \<noteq> None"
    by (auto simp: db2 getReport_def apply_sets_def Let_def failed_update_def
        no_update_def truthy_def)
  from first rep got times clock compl failed show ?thesis
    by (intro conjI exI [of _ ?r]) simp_all
qed

theorem create_then_update_invariant_witness:
  "\<exists>db1 rep db2.
     createReport Map.empty ''r1'' ''last7'' (Some 5) 10 = Inr (db1, rep) \<and> (10::nat) \<le> 20 \<and>
     updateReport db1 ''r1'' (failed_update ''boom'') 20 = Inr db2 \<and>
     status rep = Pending \<and> result rep = None \<and> error rep = None \<and>
     (\<exists>r. getReport db2 ''r1'' = Some r \<and> createdAt r \<le> updatedAt r \<and>
          status r = Failed \<and> result r = None \<and> error r \<noteq> None)"
proof -
  let ?row = "\<lparr>row_id = ''r1'', row_status = Pending, time_range = ''last7'', top_count = 5,
               row_result = None, row_error = None, created_at = 10, updated_at = 10\<rparr>"
  let ?db1 = "[''r1'' \<mapsto> ?row]"
  let ?rep = "\<lparr>report_id = ''r1'', status = Pending, timeRange = ''last7'', topCount = 5,
               result = None, error = None, createdAt = 10, updatedAt = 10\<rparr>"
  let ?db2 = "?db1(''r1'' \<mapsto> apply_sets (failed_update ''boom'') 20 ?row)"
  have c: "createReport Map.empty ''r1'' ''last7'' (Some 5) 10 = Inr (?db1, ?rep)"
    by (simp add: createReport_def)
  have t: "(10::nat) \<le> 20" by simp
  have u: "updateReport ?db1 ''r1'' (failed_update ''boom'') 20 = Inr ?db2"
    by (simp add: updateReport_def)
  have m: "\<exists>msg. msg \<noteq> [] \<and> failed_update ''boom'' = failed_update msg"
    by (rule exI [of _ "''boom''"]) simp
  from create_then_update_invariant [OF c t u] m
  have "status ?rep = Pending \<and> result ?rep = None \<and> error ?rep = None \<and>
        (\<exists>r. getReport ?db2 ''r1'' = Some r \<and> createdAt r \<le> updatedAt r \<and>
             status r = Failed \<and> result r = None \<and> error r \<noteq> None)"
    by blast
  with c t u show ?thesis by blast
qed

text \<open>
  C7, counterexample: a report is created at time 10 and then updated once, at time 20,
  with \<open>{ status: 'failed', error: '' }\<close>. The report read back is failed, hence
  terminal, and carries neither a result nor an error.
\<close>

theorem create_then_update_counterexample:
  "createReport Map.empty ''r1'' ''last7'' (Some 5) 10 =
     Inr ([''r1'' \<mapsto> \<lparr>row_id = ''r1'', row_status = Pending, time_range = ''last7'',
                        top_count = 5, row_result = None, row_error = None,
                        created_at = 10, updated_at = 10\<rparr>],
          \<lparr>report_id = ''r1'', status = Pending, timeRange = ''last7'', topCount = 5,
           result = None, error = None, createdAt = 10, updatedAt = 10\<rparr>) \<and>
   updateReport
     [''r1'' \<mapsto> \<lparr>row_id = ''r1'', row_status = Pending, time_range = ''last7'',
                  top_count = 5, row_result = None, row_error = None,
                  created_at = 10, updated_at = 10\<rparr>]
     ''r1'' (failed_update []) 20 =
     Inr [''r1'' \<mapsto> \<lparr>row_id = ''r1'', row_status = Failed, time_range = ''last7'',
                       top_count = 5, row_result = None, row_error = None,
                       created_at = 10, updated_at = 20\<rparr>] \<and>
   getReport
     [''r1'' \<mapsto> \<lparr>row_id = ''r1'', row_status = Failed, time_range = ''last7'',
                  top_count = 5, row_result = None, row_error = None,
                  created_at = 10, updated_at = 20\<rparr>] ''r1'' =
     Some \<lparr>report_id = ''r1'', status = Failed, timeRange = ''last7'', topCount = 5,
           result = None, error = None, createdAt = 10, updatedAt = 20\<rparr>"
  by (simp add: createReport_def updateReport_def getReport_def apply_sets_def Let_def
      failed_update_def no_update_def truthy_def)

section \<open>Sorting, slicing and the frequency map\<close>






























lemma foldl_add_usage:
  "foldl (\<lambda>acc curr. add_usage acc (usage curr)) a rs =
     \<lparr>prompt_tokens = prompt_tokens a + sum_list (map prompt_tokens (map usage rs)),
      completion_tokens = completion_tokens a + sum_list (map completion_tokens (map usage rs)),
      total_tokens = total_tokens a + sum_list (map total_tokens (map usage rs)),
      estimated_cost_usd = foldl fadd (estimated_cost_usd a) (map estimated_cost_usd (map usage rs))\<rparr>"
  by (induction rs arbitrary: a) (simp_all add: add_usage_def algebra_simps)

lemma usage_combineResults: "usage (combineResults env c rs) = sum_usage (map usage rs)"
  by (simp add: combineResults_def foldl_add_usage sum_usage_def zero_usage_def)


lemma processBatches_results:
  "processBatches env_at c create parse ds i acc = Inr rs \<Longrightarrow>
     \<exists>bs. length bs = length ds \<and>
          (\<forall>j<length ds.
             processDailyBatch (env_at (2 * (i + j))) (env_at (2 * (i + j) + 1)) c (create (i + j))
               parse (day_questions (ds ! j)) = Inr (bs ! j)) \<and>
          rs = acc @ filter (\<lambda>b. questions b \<noteq> []) bs"
proof (induction ds arbitrary: i acc)
  case Nil
  then show ?case by simp
next
  case (Cons d ds)
  from Cons.prems obtain r where
    r: "processDailyBatch (env_at (2 * i)) (env_at (2 * i + 1)) c (create i) parse
          (day_questions d) = Inr r"
    and rest: "processBatches env_at c create parse ds (Suc i)
                 (if length (questions r) > 0 then acc @ [r] else acc) = Inr rs"
    by (auto split: sum.splits)
  from Cons.IH [OF rest] obtain bs where bs: "length bs = length ds"
    "\<forall>j<length ds.
       processDailyBatch (env_at (2 * (Suc i + j))) (env_at (2 * (Suc i + j) + 1)) c
         (create (Suc i + j)) parse (day_questions (ds ! j)) = Inr (bs ! j)"
    "rs = (if length (questions r) > 0 then acc @ [r] else acc) @ filter (\<lambda>b. questions b \<noteq> []) bs"
    by blast
  have "\<forall>j<length (d # ds).
          processDailyBatch (env_at (2 * (i + j))) (env_at (2 * (i + j) + 1)) c (create (i + j))
            parse (day_questions ((d # ds) ! j)) = Inr ((r # bs) ! j)"
  proof (intro allI impI)
    fix j assume "j < length (d # ds)"
    then show "processDailyBatch (env_at (2 * (i + j))) (env_at (2 * (i + j) + 1)) c
                 (create (i + j)) parse (day_questions ((d # ds) ! j)) = Inr ((r # bs) ! j)"
      using r bs(2) by (cases j) simp_all
  qed
  moreover have "length (r # bs) = length (d # ds)" using bs(1) by simp
  moreover have "rs = acc @ filter (\<lambda>b. questions b \<noteq> []) (r # bs)"
    using bs(3) by simp
  ultimately show ?case by blast
qed

lemma processBatches_fails:
  "j < length ds \<Longrightarrow>
   isl (processDailyBatch (env_at (2 * (i + j))) (env_at (2 * (i + j) + 1)) c (create (i + j))
          parse (day_questions (ds ! j))) \<Longrightarrow>
   isl (processBatches env_at c create parse ds i acc)"
proof (induction ds arbitrary: i j acc)
  case Nil
  then show ?case by simp
next
  case (Cons d ds)
  show ?case
  proof (cases "processDailyBatch (env_at (2 * i)) (env_at (2 * i + 1)) c (create i) parse
                  (day_questions d)")
    case (Inl e)
    then show ?thesis by simp
  next
    case (Inr r)
    with Cons.prems obtain j' where j': "j = Suc j'"
      by (cases j) auto
    with Cons.prems have "j' < length ds"
      "isl (processDailyBatch (env_at (2 * (Suc i + j'))) (env_at (2 * (Suc i + j') + 1)) c
              (create (Suc i + j')) parse (day_questions (ds ! j')))"
      by simp_all
    from Cons.IH [OF this] show ?thesis using Inr by simp
  qed
qed



lemma analyzeQuestions_cases:
  "analyzeQuestions env_at c create parse allQ ds = Inr r \<Longrightarrow>
     (TIME_RANGE (env_at 0) = today \<and>
      processDailyBatch (env_at 0) (env_at 1) c (create 0) parse allQ = Inr r) \<or>
     (TIME_RANGE (env_at 0) \<noteq> today \<and>
      (\<exists>rs. processBatches env_at c create parse ds 0 [] = Inr rs \<and>
            r = combineResults (env_at (2 * length ds)) c rs))"
  by (auto simp: analyzeQuestions_def split: if_splits sum.splits)


lemmas ex_defs =
  example_env_def example_env_at_def example_create_def example_parse_def example_day_def
  no_clusters_content_def two_clusters_content_def tied_clusters_content_def html_content_def

section \<open>The costs of the examples\<close>

text \<open>
  The arithmetic of the example costs, one rounded operation at a time. \<open>0.03\<close> is
  \<open>Double 1080863910568919 (-55)\<close>; the cost of 200 prompt tokens is the double 0.006,
  \<open>Double 3458764513820541 (-59)\<close>, and that of 800 prompt tokens the double 0.024.
\<close>

lemmas double_eval = double_of_int_def double_of_ratio_def round_frac_def round_at_def
  round_half_even_div_def ilog2_frac_def bit_length.simps canonical.simps
  fadd.simps fmul.simps fdiv.simps

lemma double_0_03: "double_of_ratio 3 100 = Double 1080863910568919 (-55)"
  by (simp add: double_eval)

lemma double_0_06: "double_of_ratio 6 100 = Double 1080863910568919 (-54)"
  by (simp add: double_eval)

lemma double_of_0: "double_of_int 0 = Double 0 0"
  by (simp add: double_eval)

lemma double_of_5: "double_of_int 5 = Double 5 0"
  by (simp add: double_eval)

lemma double_of_10: "double_of_int 10 = Double 5 1"
  by (simp add: double_eval)

lemma double_of_200: "double_of_int 200 = Double 25 3"
  by (simp add: double_eval)

lemma double_of_800: "double_of_int 800 = Double 25 5"
  by (simp add: double_eval)

lemma double_of_1000: "double_of_int 1000 = Double 125 3"
  by (simp add: double_eval)

lemma fdiv_0_1000: "fdiv (Double 0 0) (Double 125 3) = Double 0 0"
  by (simp add: double_eval)

lemma fdiv_5_1000: "fdiv (Double 5 0) (Double 125 3) = Double 5764607523034235 (-60)"
  by (simp add: double_eval)

lemma fdiv_10_1000: "fdiv (Double 5 1) (Double 125 3) = Double 5764607523034235 (-59)"
  by (simp add: double_eval)

lemma fdiv_200_1000: "fdiv (Double 25 3) (Double 125 3) = Double 3602879701896397 (-54)"
  by (simp add: double_eval)

lemma fdiv_800_1000: "fdiv (Double 25 5) (Double 125 3) = Double 3602879701896397 (-52)"
  by (simp add: double_eval)

lemma fmul_10: "fmul (Double 5764607523034235 (-59)) (Double 1080863910568919 (-55)) = Double 5534023222112865 (-64)"
  by (simp add: double_eval)

lemma fmul_5: "fmul (Double 5764607523034235 (-60)) (Double 1080863910568919 (-54)) = Double 5534023222112865 (-64)"
  by (simp add: double_eval)

lemma fmul_200: "fmul (Double 3602879701896397 (-54)) (Double 1080863910568919 (-55)) = Double 3458764513820541 (-59)"
  by (simp add: double_eval)

lemma fmul_800: "fmul (Double 3602879701896397 (-52)) (Double 1080863910568919 (-55)) = Double 3458764513820541 (-57)"
  by (simp add: double_eval)

lemma fmul_0: "fmul (Double 0 0) (Double 1080863910568919 (-54)) = Double 0 0"
  by (simp add: double_eval)

lemma fadd_cost_10_5: "fadd (Double 5534023222112865 (-64)) (Double 5534023222112865 (-64)) = Double 5534023222112865 (-63)"
  by (simp add: double_eval)

lemma fadd_small_0: "fadd (Double 3458764513820541 (-59)) (Double 0 0) = Double 3458764513820541 (-59)"
  by (simp add: double_eval)

lemma fadd_large_0: "fadd (Double 3458764513820541 (-57)) (Double 0 0) = Double 3458764513820541 (-57)"
  by (simp add: double_eval)

lemma fadd_0_cost: "fadd (Double 0 0) (Double 5534023222112865 (-63)) = Double 5534023222112865 (-63)"
  by (simp add: double_eval)

lemma fadd_0_small: "fadd (Double 0 0) (Double 3458764513820541 (-59)) = Double 3458764513820541 (-59)"
  by (simp add: double_eval)

lemma fadd_small_small: "fadd (Double 3458764513820541 (-59)) (Double 3458764513820541 (-59)) = Double 3458764513820541 (-58)"
  by (simp add: double_eval)

lemma fadd_2small_large: "fadd (Double 3458764513820541 (-58)) (Double 3458764513820541 (-57)) = Double 1297036692682703 (-55)"
  by (simp add: double_eval)

lemma fadd_0_large: "fadd (Double 0 0) (Double 3458764513820541 (-57)) = Double 3458764513820541 (-57)"
  by (simp add: double_eval)

lemma fadd_large_small: "fadd (Double 3458764513820541 (-57)) (Double 3458764513820541 (-59)) = Double 1080863910568919 (-55)"
  by (simp add: double_eval)

lemma fadd_large_2small: "fadd (Double 1080863910568919 (-55)) (Double 3458764513820541 (-59)) = Double 5188146770730811 (-57)"
  by (simp add: double_eval)

lemmas double_steps =
  double_0_03 double_0_06 double_of_0 double_of_5 double_of_10 double_of_200 double_of_800
  double_of_1000 fdiv_0_1000 fdiv_5_1000 fdiv_10_1000 fdiv_200_1000 fdiv_800_1000 fmul_10
  fmul_5 fmul_200 fmul_800 fmul_0 fadd_cost_10_5 fadd_small_0 fadd_large_0 fadd_0_cost
  fadd_0_small fadd_small_small fadd_2small_large fadd_0_large fadd_large_small
  fadd_large_2small

lemma example_batch_usage:
  "batch_usage (Some \<lparr>reported_prompt_tokens = 10, reported_completion_tokens = 5,
                      reported_total_tokens = 15\<rparr>) =
     \<lparr>prompt_tokens = 10, completion_tokens = 5, total_tokens = 15,
      estimated_cost_usd = Double 5534023222112865 (- 63)\<rparr>"
  by (simp add: batch_usage_def double_steps)



section \<open>Ranking and truncation\<close>




section \<open>Usage accounting\<close>

text \<open>
  C3, as amended. The usage of the aggregator's result is the component-wise sum of the
  usage of the results it is given. For the range \<open>today\<close> the job's result is the
  result of its single batch. For every other range the job hands the aggregator only the
  batch results whose question list is not empty, so the usage of the job's result is
  the component-wise sum over those batches; the usage of a batch whose clustered question
  list is empty is not counted.
\<close>

theorem usage_sums_kept_batches:
  "usage (combineResults env localeCompare rs) = sum_usage (map usage rs) \<and>
   (analyzeQuestions env_at localeCompare create parse allQuestions dailyQuestions = Inr r \<longrightarrow>
      (TIME_RANGE (env_at 0) = today \<longrightarrow>
         processDailyBatch (env_at 0) (env_at 1) localeCompare (create 0) parse allQuestions =
           Inr r) \<and>
      (TIME_RANGE (env_at 0) \<noteq> today \<longrightarrow>
         (\<exists>bs. length bs = length dailyQuestions \<and>
               (\<forall>i<length dailyQuestions.
                  processDailyBatch (env_at (2 * i)) (env_at (2 * i + 1)) localeCompare (create i)
                    parse (day_questions (dailyQuestions ! i)) = Inr (bs ! i)) \<and>
               usage r = sum_usage (map usage (filter (\<lambda>b. questions b \<noteq> []) bs)))))"
proof (intro conjI impI)
  show "usage (combineResults env localeCompare rs) = sum_usage (map usage rs)"
    by (rule usage_combineResults)
next
  assume a: "analyzeQuestions env_at localeCompare create parse allQuestions dailyQuestions = Inr r"
    and "TIME_RANGE (env_at 0) = today"
  then show "processDailyBatch (env_at 0) (env_at 1) localeCompare (create 0) parse allQuestions =
               Inr r"
    using analyzeQuestions_cases [OF a] by auto
next
  assume a: "analyzeQuestions env_at localeCompare create parse allQuestions dailyQuestions = Inr r"
    and "TIME_RANGE (env_at 0) \<noteq> today"
  with analyzeQuestions_cases [OF a] obtain kept
    where kept: "processBatches env_at localeCompare create parse dailyQuestions 0 [] = Inr kept"
      and r: "r = combineResults (env_at (2 * length dailyQuestions)) localeCompare kept"
    by auto
  from processBatches_results [OF kept] obtain bs where
    "length bs = length dailyQuestions"
    "\<forall>j<length dailyQuestions.
        processDailyBatch (env_at (2 * j)) (env_at (2 * j + 1)) localeCompare (create j) parse
          (day_questions (dailyQuestions ! j)) = Inr (bs ! j)"
    "kept = filter (\<lambda>b. questions b \<noteq> []) bs"
    by auto
  then show "\<exists>bs. length bs = length dailyQuestions \<and>
               (\<forall>i<length dailyQuestions.
                  processDailyBatch (env_at (2 * i)) (env_at (2 * i + 1)) localeCompare (create i)
                    parse (day_questions (dailyQuestions ! i)) = Inr (bs ! i)) \<and>
               usage r = sum_usage (map usage (filter (\<lambda>b. questions b \<noteq> []) bs))"
    using r usage_combineResults by blast
qed

theorem usage_sums_kept_batches_witness:
  "analyzeQuestions (example_env_at last7 (Some 10)) example_collation
     (example_create (Some two_clusters_content)) example_parse [] [example_day] =
     Inr \<lparr>questions = [\<lparr>question = ''cancel order'', count = 3\<rparr>,
                       \<lparr>question = ''reset password'', count = 2\<rparr>],
          usage = \<lparr>prompt_tokens = 10, completion_tokens = 5, total_tokens = 15,
                   estimated_cost_usd = Double 5534023222112865 (- 63)\<rparr>\<rparr> \<and>
   (\<exists>bs. length bs = 1 \<and>
      processDailyBatch (example_env last7 (Some 10)) (example_env last7 (Some 10))
        example_collation (example_create (Some two_clusters_content) 0)
        example_parse (day_questions example_day) = Inr (bs ! 0) \<and>
      \<lparr>prompt_tokens = 10, completion_tokens = 5, total_tokens = 15,
        estimated_cost_usd = Double 5534023222112865 (- 63)\<rparr> =
        sum_usage (map usage (filter (\<lambda>b. questions b \<noteq> []) bs)))"
proof -
  let ?r = "\<lparr>questions = [\<lparr>question = ''cancel order'', count = 3\<rparr>,
                       \<lparr>question = ''reset password'', count = 2\<rparr>],
          usage = \<lparr>prompt_tokens = 10, completion_tokens = 5, total_tokens = 15,
                   estimated_cost_usd = Double 5534023222112865 (- 63)\<rparr>\<rparr>"
  have a: "analyzeQuestions (example_env_at last7 (Some 10)) example_collation
     (example_create (Some two_clusters_content)) example_parse [] [example_day] = Inr ?r"
    by (simp add: ex_defs processDailyBatch_def analyzeQuestions_def truthy_def slice0_def
      example_batch_usage compareFrequency_def combineResults_def frequencyMap_def
      add_question_def normalized_def trim_def toLowerCase_def lower_char_def is_space_def
      map_get_or_0_def entry_def add_usage_def zero_usage_def fadd_0_cost)
  have t: "TIME_RANGE (example_env_at last7 (Some 10) 0) \<noteq> today"
    by (simp add: ex_defs)
  from usage_sums_kept_batches
    [of "example_env last7 (Some 10)" example_collation "[]" "example_env_at last7 (Some 10)"
        "example_create (Some two_clusters_content)" example_parse "[]" "[example_day]" ?r] a t
  show ?thesis by (simp add: example_env_at_def)
qed

text \<open>
  C3, counterexample: one daily batch, for which the completion service returns no
  cluster and reports 10 prompt, 5 completion and 15 total tokens. The batch's usage has
  these counts; the usage of the job's result is zero.
\<close>

theorem usage_counterexample:
  "processDailyBatch (example_env last7 (Some 10)) (example_env last7 (Some 10))
     example_collation (example_create (Some no_clusters_content) 0)
     example_parse (day_questions example_day) =
     Inr \<lparr>questions = [],
          usage = \<lparr>prompt_tokens = 10, completion_tokens = 5, total_tokens = 15,
                   estimated_cost_usd = Double 5534023222112865 (- 63)\<rparr>\<rparr> \<and>
   analyzeQuestions (example_env_at last7 (Some 10)) example_collation
     (example_create (Some no_clusters_content)) example_parse [] [example_day] =
     Inr \<lparr>questions = [],
          usage = \<lparr>prompt_tokens = 0, completion_tokens = 0, total_tokens = 0,
                   estimated_cost_usd = Double 0 0\<rparr>\<rparr> \<and>
   \<lparr>prompt_tokens = 0, completion_tokens = 0, total_tokens = 0,
    estimated_cost_usd = Double 0 0\<rparr> \<noteq>
     sum_usage [\<lparr>prompt_tokens = 10, completion_tokens = 5, total_tokens = 15,
                 estimated_cost_usd = Double 5534023222112865 (- 63)\<rparr>]"
  by (simp add: ex_defs processDailyBatch_def analyzeQuestions_def truthy_def slice0_def
      example_batch_usage combineResults_def frequencyMap_def zero_usage_def sum_usage_def)

section \<open>Malformed responses of the clustering call\<close>

text \<open>
  C2, as amended. For a non-empty batch whose call is answered: a message content that
  is null or empty makes \<open>processDailyBatch\<close> return the empty result with zero usage,
  without an error; a non-empty content that does not parse, or whose parsed value has no
  array under \<open>questions\<close>, makes it throw. An error of \<open>processDailyBatch\<close> leaves the
  clustering stage as an error: for the range \<open>today\<close> it is the error of the single
  batch, for every other range an error of any daily batch fails the job.
\<close>

theorem malformed_response_outcome:
  "(qs \<noteq> [] \<and> call (TOP_QUESTIONS env_call) qs = Inr response \<and>
    choices response = content # rest \<longrightarrow>
      (\<not> truthy content \<longrightarrow>
         processDailyBatch env_call env_cut localeCompare call parse qs = Inr empty_result) \<and>
      (\<forall>s. content = Some s \<and> s \<noteq> [] \<and>
           (\<forall>clusters. parse s \<noteq> Inr (JsonValue (Clusters clusters))) \<longrightarrow>
           isl (processDailyBatch env_call env_cut localeCompare call parse qs))) \<and>
   (TIME_RANGE (env_at 0) = today \<and>
    processDailyBatch (env_at 0) (env_at 1) localeCompare (create 0) parse allQuestions = Inl e \<longrightarrow>
      analyzeQuestions env_at localeCompare create parse allQuestions dailyQuestions = Inl e) \<and>
   (TIME_RANGE (env_at 0) \<noteq> today \<and> i < length dailyQuestions \<and>
    isl (processDailyBatch (env_at (2 * i)) (env_at (2 * i + 1)) localeCompare (create i) parse
           (day_questions (dailyQuestions ! i))) \<longrightarrow>
      isl (analyzeQuestions env_at localeCompare create parse allQuestions dailyQuestions))"
proof (intro conjI impI allI)
  assume "TIME_RANGE (env_at 0) \<noteq> today \<and> i < length dailyQuestions \<and>
    isl (processDailyBatch (env_at (2 * i)) (env_at (2 * i + 1)) localeCompare (create i) parse
           (day_questions (dailyQuestions ! i)))"
  then have "isl (processBatches env_at localeCompare create parse dailyQuestions 0 [])"
    and "TIME_RANGE (env_at 0) \<noteq> today"
    using processBatches_fails [of i dailyQuestions env_at 0 localeCompare create parse "[]"]
    by simp_all
  then show "isl (analyzeQuestions env_at localeCompare create parse allQuestions dailyQuestions)"
    by (auto simp: analyzeQuestions_def split: sum.splits)
qed (auto simp: processDailyBatch_def analyzeQuestions_def truthy_def
      split: sum.splits parsed_json.splits questions_field.splits option.splits)

theorem malformed_response_outcome_witness:
  "day_questions example_day \<noteq> [] \<and>
   example_parse html_content = Inl ''Unexpected token < in JSON at position 0'' \<and>
   isl (processDailyBatch (example_env last7 (Some 10)) (example_env last7 (Some 10))
          example_collation (example_create (Some html_content) 0)
          example_parse (day_questions example_day)) \<and>
   isl (analyzeQuestions (example_env_at last7 (Some 10)) example_collation
          (example_create (Some html_content)) example_parse [] [example_day])"
proof -
  let ?env = "example_env last7 (Some 10)"
  let ?env_at = "example_env_at last7 (Some 10)"
  let ?resp = "\<lparr>choices = [Some html_content],
          reported_usage = Some \<lparr>reported_prompt_tokens = 10, reported_completion_tokens = 5,
                                 reported_total_tokens = 15\<rparr>\<rparr>"
  note inst = malformed_response_outcome
    [of "day_questions example_day" "example_create (Some html_content) 0" ?env ?resp
        "Some html_content" "[]" ?env example_collation example_parse ?env_at
        "example_create (Some html_content)" "[]" "Error []" "[example_day]" 0]
  have p: "example_parse html_content = Inl ''Unexpected token < in JSON at position 0''"
    by (simp add: ex_defs)
  have ne: "html_content \<noteq> []"
    by (simp add: html_content_def)
  have q: "day_questions example_day \<noteq> []" by (simp add: example_day_def)
  have c: "example_create (Some html_content) 0 (TOP_QUESTIONS ?env) (day_questions example_day) = Inr ?resp"
    by (simp add: example_create_def)
  have b: "isl (processDailyBatch ?env ?env example_collation (example_create (Some html_content) 0)
          example_parse (day_questions example_day))"
    using inst p q c ne by simp
  have t: "TIME_RANGE (?env_at 0) \<noteq> today" by (simp add: example_env_def example_env_at_def)
  have "isl (analyzeQuestions ?env_at example_collation (example_create (Some html_content))
          example_parse [] [example_day])"
    using inst b t by (simp add: example_env_at_def)
  with p q b show ?thesis by simp
qed

text \<open>
  C2, counterexample: a non-empty batch for which the completion service answers with a
  null message content. \<open>processDailyBatch\<close> returns the empty result and so does the job
  (range \<open>today\<close>): nothing is thrown.
\<close>

theorem absent_content_counterexample:
  "day_questions example_day \<noteq> [] \<and>
   processDailyBatch (example_env today (Some 10)) (example_env today (Some 10))
     example_collation (example_create None 0) example_parse
     (day_questions example_day) = Inr empty_result \<and>
   analyzeQuestions (example_env_at today (Some 10)) example_collation (example_create None)
     example_parse (day_questions example_day) [] = Inr empty_result \<and>
   \<not> isl (processDailyBatch (example_env today (Some 10)) (example_env today (Some 10))
            example_collation (example_create None 0) example_parse
            (day_questions example_day))"
  by (simp add: ex_defs processDailyBatch_def analyzeQuestions_def truthy_def)

section \<open>Merging by normalized question\<close>






section \<open>The question extractor\<close>

lemma join_Cons: "join sep (x # xs) = (if xs = [] then x else x @ sep @ join sep xs)"
  by (cases xs) simp_all

lemma join_nonempty: "xs \<noteq> [] \<Longrightarrow> \<forall>x \<in> set xs. x \<noteq> [] \<Longrightarrow> join sep xs \<noteq> []"
  by (cases xs) (simp_all add: join_Cons)

lemma extractTextFromDialog_spec_text: "extractTextFromDialog dialog = spec_text dialog"
proof (induction dialog)
  case Nil
  show ?case by (simp add: extractTextFromDialog_def)
next
  case (Cons turn turns)
  let ?keep = "\<lambda>turn. turn_type turn = ''request'' \<and> truthy (turn_query turn)"
  let ?text = "\<lambda>turn. case turn_query turn of Some q \<Rightarrow> q | None \<Rightarrow> []"
  let ?kept = "map ?text (filter ?keep turns)"
  have nonempty: "\<forall>x \<in> set ?kept. x \<noteq> []"
    by (auto simp: truthy_def split: option.splits)
  have empty_iff: "(spec_text turns = []) = (?kept = [])"
    using join_nonempty [OF _ nonempty, of "'' ''"] Cons.IH
    by (auto simp: extractTextFromDialog_def)
  show ?case
  proof (cases "?keep turn")
    case True
    then obtain q where q: "turn_query turn = Some q" "q \<noteq> []"
      by (auto simp: truthy_def split: option.splits)
    have "extractTextFromDialog (turn # turns) = join '' '' (q # ?kept)"
      using True q by (simp add: extractTextFromDialog_def)
    also have "\<dots> = (if ?kept = [] then q else q @ '' '' @ extractTextFromDialog turns)"
      by (simp only: join_Cons extractTextFromDialog_def)
    also have "\<dots> = spec_text (turn # turns)"
      using True q empty_iff Cons.IH by simp
    finally show ?thesis .
  next
    case False
    then have "extractTextFromDialog (turn # turns) = extractTextFromDialog turns"
      by (auto simp: extractTextFromDialog_def)
    moreover from False have "spec_text (turn # turns) = spec_text turns"
      by (auto simp: truthy_def split: option.splits)
    ultimately show ?thesis using Cons.IH by simp
  qed
qed

lemma trim_empty_iff: "(trim s = []) = whitespace_only s"
proof
  assume "trim s = []"
  then have all: "\<forall>c \<in> set (dropWhile is_space s). is_space c"
    by (simp add: trim_def dropWhile_eq_Nil_conv)
  have "dropWhile is_space s = []"
  proof (rule ccontr)
    assume ne: "dropWhile is_space s \<noteq> []"
    then have "\<not> is_space (hd (dropWhile is_space s))"
      by (rule hd_dropWhile)
    moreover from ne have "hd (dropWhile is_space s) \<in> set (dropWhile is_space s)"
      by (rule hd_in_set)
    ultimately show False using all by blast
  qed
  then show "whitespace_only s"
    by (simp add: whitespace_only_def)
next
  assume "whitespace_only s"
  then have "dropWhile is_space s = []"
    by (simp add: whitespace_only_def)
  then show "trim s = []" by (simp only: trim_def) simp
qed

text \<open>
  C8. The text that \<open>extractTextFromDialog\<close> returns is the text of the specification:
  the non-empty queries of the turns of type \<open>request\<close>, in turn order, with one space
  between them. \<open>extractQuestions\<close> returns the segments of the tokenizer, in their
  order, without those that are empty or consist of white space only.
\<close>

theorem extractor_keeps_request_queries:
  "extractTextFromDialog dialog = spec_text dialog \<and>
   extractQuestions tokenize transcript =
     filter (\<lambda>s. \<not> whitespace_only s) (case tokenize transcript of Some ss \<Rightarrow> ss | None \<Rightarrow> []) \<and>
   (\<forall>s \<in> set (extractQuestions tokenize transcript). s \<noteq> [] \<and> \<not> whitespace_only s)"
proof (intro conjI)
  show "extractTextFromDialog dialog = spec_text dialog"
    by (rule extractTextFromDialog_spec_text)
  show eq: "extractQuestions tokenize transcript =
     filter (\<lambda>s. \<not> whitespace_only s) (case tokenize transcript of Some ss \<Rightarrow> ss | None \<Rightarrow> [])"
    by (simp add: extractQuestions_def trim_empty_iff)
  show "\<forall>s \<in> set (extractQuestions tokenize transcript). s \<noteq> [] \<and> \<not> whitespace_only s"
    unfolding eq by (auto simp: whitespace_only_def)
qed

theorem extractor_keeps_request_queries_witness:
  "extractTextFromDialog example_dialog = ''How do I reset? Where is my order?'' \<and>
   extractQuestions example_tokenize (extractTextFromDialog example_dialog) =
     [''How do I reset?'', ''Where is my order?'']"
  using extractor_keeps_request_queries
    [of example_dialog example_tokenize "extractTextFromDialog example_dialog"]
  by (simp add: example_dialog_def example_tokenize_def turn_query_def whitespace_only_def
      is_space_def extractTextFromDialog_def extractQuestions_def truthy_def trim_def)

section \<open>The credential probe of the request handler\<close>

text \<open>
  C1. When the credential probe is answered with a status that is not a success, the
  handler passes an error to \<open>next\<close> and answers with no report id. But the pending
  report is created before the probe: when the request is valid, the configuration
  complete and the id fresh, the store holds a pending report under the new id after the
  handler has failed, against the claim that no report row is created.
\<close>

theorem probe_failure_after_report_creation:
  "(testRequest = Inr response \<and> \<not> ok response \<longrightarrow>
      (\<exists>db' e. analyzeHandler parseInt10 parseInt penv db req reportId now testRequest =
                 (db', NextError e))) \<and>
   (testRequest = Inr response \<and> \<not> ok response \<and>
    querySchema_parse req = Inr (rng, top_str) \<and>
    getConfig parseInt10 penv rng top_str True = Inr env \<and>
    parseInt top_str = Some n \<and> db reportId = None \<longrightarrow>
      (\<exists>db' e. analyzeHandler parseInt10 parseInt penv db req reportId now testRequest =
                 (db', NextError e) \<and>
               getReport db' reportId =
                 Some \<lparr>report_id = reportId, status = Pending, timeRange = label_of_range rng,
                       topCount = n, result = None, error = None, createdAt = now,
                       updatedAt = now\<rparr>))"
  by (auto simp: analyzeHandler_def createReport_def getReport_def
      split: sum.splits prod.splits option.splits)

theorem probe_failure_after_report_creation_witness:
  "\<not> ok \<lparr>http_status = 401, statusText = ''Unauthorized''\<rparr> \<and>
   analyzeHandler example_parseInt example_parseInt example_process_env Map.empty example_request
     ''r1'' 10 (Inr \<lparr>http_status = 401, statusText = ''Unauthorized''\<rparr>) =
     ([''r1'' \<mapsto> \<lparr>row_id = ''r1'', row_status = Pending, time_range = ''last7'',
                     top_count = 5, row_result = None, row_error = None,
                     created_at = 10, updated_at = 10\<rparr>],
      NextError (Error ''Invalid Voiceflow API key'')) \<and>
   getReport [''r1'' \<mapsto> \<lparr>row_id = ''r1'', row_status = Pending, time_range = ''last7'',
                     top_count = 5, row_result = None, row_error = None,
                     created_at = 10, updated_at = 10\<rparr>] ''r1'' =
     Some \<lparr>report_id = ''r1'', status = Pending, timeRange = ''last7'', topCount = 5,
           result = None, error = None, createdAt = 10, updatedAt = 10\<rparr>"
  using probe_failure_after_report_creation
    [of "Inr \<lparr>http_status = 401, statusText = ''Unauthorized''\<rparr>"
        "\<lparr>http_status = 401, statusText = ''Unauthorized''\<rparr>"
        example_parseInt example_parseInt example_process_env Map.empty example_request
        "''r1''" 10 last7 "''5''"
        "\<lparr>PROJECT_ID = ''project'', VF_API_KEY = ''vf-key'', OPENAI_API_KEY = ''openai-key'',
          TOP_QUESTIONS = Some 5, TIME_RANGE = last7, IS_SERVER = True, VF_CLOUD = None\<rparr>" 5]
  by (simp add: analyzeHandler_def querySchema_parse_def getConfig_def createReport_def
      getReport_def ok_def range_of_label_def example_parseInt_def example_process_env_def
      example_request_def)

end
